theory Spec2Isabelle
  imports Main "HOL-Library.Word"
begin

section \<open>Common Go notions\<close>

text \<open>
  A \<^verbatim>\<open>time.Time\<close> is a point on the time line, counted in nanoseconds; a
  \<^verbatim>\<open>time.Duration\<close> is a number of nanoseconds. Both are unbounded integers here;
  the only product the code forms (an \<^verbatim>\<open>int32\<close> number of seconds times
  \<^verbatim>\<open>time.Second\<close>) fits an \<^verbatim>\<open>int64\<close>, see \<open>leaseDuration_fits_int64\<close>.
\<close>

type_synonym time = int
type_synonym duration = int
type_synonym int32 = "32 word"
type_synonym int64 = "64 word"

definition Second :: duration where
  "Second = 1000000000"

text \<open>
  Errors: \<^verbatim>\<open>errors.New\<close>-like leaves, \<^verbatim>\<open>fmt.Errorf("<prefix>%w", err)\<close> as
  \<open>Wrap prefix err\<close>, and a gRPC status error (\<^verbatim>\<open>status.Error(code, msg)\<close>) as
  \<open>Status code msg\<close>. \<open>Error\<close> is the message an error carries.
\<close>

datatype codes =
  OK | Canceled | Unknown | InvalidArgument | DeadlineExceeded | NotFound | AlreadyExists
| PermissionDenied | ResourceExhausted | FailedPrecondition | Aborted | OutOfRange
| Unimplemented | Internal | Unavailable | DataLoss | Unauthenticated

datatype go_error = New string | Wrap string go_error | Status codes string

fun Error :: "go_error \<Rightarrow> string" where
  "Error (New m) = m"
| "Error (Wrap p e) = p @ Error e"
| "Error (Status c m) = m"

text \<open>
  The run-time panics the modelled code can raise: a nil pointer dereference, and
  \<^verbatim>\<open>time.NewTicker\<close> called with an interval that is not positive.
\<close>

datatype go_panic = NilPointerDereference | NonPositiveTickerInterval

text \<open>
  A \<^verbatim>\<open>context.Context\<close>, as far as the code builds one: the caller's context,
  \<^verbatim>\<open>context.Background()\<close>, and \<^verbatim>\<open>context.WithTimeout\<close>.
\<close>

datatype go_context = CallerCtx | Background | WithTimeout go_context duration

section \<open>Lease manager (pkg/leaderelection/lease.go)\<close>

record LeaseConfig =
  Name :: string
  Namespace :: string
  Identity :: string
  LeaseDuration :: duration
  RenewDeadline :: duration
  RetryPeriod :: duration

definition DefaultLeaseConfig :: LeaseConfig where
  "DefaultLeaseConfig =
     \<lparr>Name = ''talos-kms-leader'', Namespace = ''default'', Identity = '''',
      LeaseDuration = 15 * Second, RenewDeadline = 10 * Second, RetryPeriod = 2 * Second\<rparr>"

text \<open>
  \<^verbatim>\<open>coordinationv1.LeaseSpec\<close>: every field is a pointer, \<open>None\<close> is \<^verbatim>\<open>nil\<close>.
\<close>

record LeaseSpec =
  HolderIdentity :: "string option"
  LeaseDurationSeconds :: "int32 option"
  AcquireTime :: "time option"
  RenewTime :: "time option"
  LeaseTransitions :: "int32 option"

record Lease =
  meta_Name :: string
  meta_Namespace :: string
  Spec :: LeaseSpec

text \<open>
  The Kubernetes client. The API server is outside the program, so its answers are
  inputs: what \<^verbatim>\<open>Get\<close> returns, and for every lease handed to \<^verbatim>\<open>Create\<close> or
  \<^verbatim>\<open>Update\<close> whether the call fails. The calls made are recorded as a trace.
\<close>

record Clientset =
  Leases_Get :: "go_error + Lease"
  Leases_Create :: "Lease \<Rightarrow> go_error option"
  Leases_Update :: "Lease \<Rightarrow> go_error option"

datatype api_call =
  ApiGet go_context string string
| ApiCreate go_context string Lease
| ApiUpdate go_context string Lease

text \<open>
  \<open>seconds_int32\<close> stands for \<^verbatim>\<open>int32(d.Seconds())\<close>, a conversion through
  \<^verbatim>\<open>float64\<close> that is taken as a parameter of the manager.
\<close>

record LeaseManager =
  config :: LeaseConfig
  clientset :: Clientset
  seconds_int32 :: "duration \<Rightarrow> int32"

definition createLease ::
  "LeaseManager \<Rightarrow> go_context \<Rightarrow> time \<Rightarrow> api_call list \<times> (bool \<times> go_error option)" where
  "createLease lm ctx now =
     (let lease =
        \<lparr>meta_Name = Name (config lm), meta_Namespace = Namespace (config lm),
         Spec = \<lparr>HolderIdentity = Some (Identity (config lm)),
                 LeaseDurationSeconds = Some (seconds_int32 lm (LeaseDuration (config lm))),
                 AcquireTime = Some now,
                 RenewTime = Some now,
                 LeaseTransitions = Some 0\<rparr>\<rparr>
      in ([ApiCreate ctx (Namespace (config lm)) lease],
          case Leases_Create (clientset lm) lease of
            Some err \<Rightarrow> (False, Some (Wrap ''failed to create lease: '' err))
          | None \<Rightarrow> (True, None)))"

definition updateLease ::
  "LeaseManager \<Rightarrow> go_context \<Rightarrow> Lease \<Rightarrow> time \<Rightarrow> api_call list \<times> (bool \<times> go_error option)" where
  "updateLease lm ctx lease now =
     (let wasLeader = (HolderIdentity (Spec lease) = Some (Identity (config lm)));
          spec1 = (Spec lease)\<lparr>HolderIdentity := Some (Identity (config lm)),
                                RenewTime := Some now\<rparr>;
          spec2 = (if \<not> wasLeader
                   then spec1\<lparr>AcquireTime := Some now,
                              LeaseTransitions :=
                                (case LeaseTransitions spec1 of
                                   Some n \<Rightarrow> Some (n + 1)
                                 | None \<Rightarrow> Some 1)\<rparr>
                   else spec1);
          lease' = lease\<lparr>Spec := spec2\<rparr>
      in ([ApiUpdate ctx (Namespace (config lm)) lease'],
          case Leases_Update (clientset lm) lease' of
            Some err \<Rightarrow> (False, Some (Wrap ''failed to update lease: '' err))
          | None \<Rightarrow> (True, None)))"

text \<open>
  \<^verbatim>\<open>*lease.Spec.LeaseDurationSeconds\<close> is dereferenced with no nil check: the
  \<open>None\<close> branch is the panic.
\<close>

definition canAcquireLease :: "LeaseManager \<Rightarrow> Lease \<Rightarrow> time \<Rightarrow> go_panic + bool" where
  "canAcquireLease lm lease now =
     (if HolderIdentity (Spec lease) = Some (Identity (config lm)) then Inr True
      else if HolderIdentity (Spec lease) = None then Inr True
      else case RenewTime (Spec lease) of
             None \<Rightarrow> Inr True
           | Some renew \<Rightarrow>
               (case LeaseDurationSeconds (Spec lease) of
                  None \<Rightarrow> Inl NilPointerDereference
                | Some secs \<Rightarrow>
                    (let leaseDuration = sint secs * Second;
                         expiry = renew + leaseDuration
                     in Inr (now > expiry))))"

definition AcquireLease ::
  "LeaseManager \<Rightarrow> go_context \<Rightarrow> time \<Rightarrow> api_call list \<times> (go_panic + bool \<times> go_error option)" where
  "AcquireLease lm ctx now =
     (let get = ApiGet ctx (Namespace (config lm)) (Name (config lm)) in
      case Leases_Get (clientset lm) of
        Inl err \<Rightarrow>
          (let (calls, r) = createLease lm ctx now in (get # calls, Inr r))
      | Inr lease \<Rightarrow>
          (case canAcquireLease lm lease now of
             Inl p \<Rightarrow> ([get], Inl p)
           | Inr True \<Rightarrow>
               (let (calls, r) = updateLease lm ctx lease now in (get # calls, Inr r))
           | Inr False \<Rightarrow> ([get], Inr (False, None))))"

definition ReleaseLease :: "LeaseManager \<Rightarrow> go_context \<Rightarrow> api_call list \<times> go_error option" where
  "ReleaseLease lm ctx =
     (let get = ApiGet ctx (Namespace (config lm)) (Name (config lm)) in
      case Leases_Get (clientset lm) of
        Inl err \<Rightarrow> ([get], Some (Wrap ''failed to get lease for release: '' err))
      | Inr lease \<Rightarrow>
          if HolderIdentity (Spec lease) = None
             \<or> the (HolderIdentity (Spec lease)) \<noteq> Identity (config lm)
          then ([get], None)
          else
            (let lease' = lease\<lparr>Spec := (Spec lease)\<lparr>HolderIdentity := None,
                                                      RenewTime := None,
                                                      AcquireTime := None\<rparr>\<rparr>
             in ([get, ApiUpdate ctx (Namespace (config lm)) lease'],
                 case Leases_Update (clientset lm) lease' of
                   Some err \<Rightarrow> Some (Wrap ''failed to release lease: '' err)
                 | None \<Rightarrow> None)))"

text \<open>
  \<^verbatim>\<open>LeaseInfo\<close>: a field the lease leaves unset keeps Go's zero value (the empty
  string, false, 0; \<open>None\<close> is the zero \<^verbatim>\<open>time.Time\<close>).
\<close>

record LeaseInfo =
  info_Name :: string
  info_Namespace :: string
  info_HolderIdentity :: string
  info_IsLeader :: bool
  info_AcquireTime :: "time option"
  info_RenewTime :: "time option"
  info_LeaseTransitions :: int32
  info_LeaseDuration :: duration

definition GetLeaseInfo ::
  "LeaseManager \<Rightarrow> go_context \<Rightarrow> api_call list \<times> (go_error + LeaseInfo)" where
  "GetLeaseInfo lm ctx =
     (let get = ApiGet ctx (Namespace (config lm)) (Name (config lm)) in
      case Leases_Get (clientset lm) of
        Inl err \<Rightarrow> ([get], Inl (Wrap ''failed to get lease info: '' err))
      | Inr lease \<Rightarrow>
          ([get], Inr
            \<lparr>info_Name = meta_Name lease,
             info_Namespace = meta_Namespace lease,
             info_HolderIdentity =
               (case HolderIdentity (Spec lease) of Some h \<Rightarrow> h | None \<Rightarrow> ''''),
             info_IsLeader =
               (case HolderIdentity (Spec lease) of
                  Some h \<Rightarrow> h = Identity (config lm) | None \<Rightarrow> False),
             info_AcquireTime = AcquireTime (Spec lease),
             info_RenewTime = RenewTime (Spec lease),
             info_LeaseTransitions =
               (case LeaseTransitions (Spec lease) of Some n \<Rightarrow> n | None \<Rightarrow> 0),
             info_LeaseDuration =
               (case LeaseDurationSeconds (Spec lease) of
                  Some secs \<Rightarrow> sint secs * Second | None \<Rightarrow> 0)\<rparr>))"

section \<open>Election controller (pkg/leaderelection/election.go)\<close>

text \<open>
  A callback field is \<open>True\<close> iff the hook is non-nil. What a hook does is the
  application's business; the controller's effects are recorded as events: the API calls
  it makes, the hooks it starts on a goroutine (\<open>Go_\<close>) or calls in line (\<open>Call_\<close>),
  and the deferred clean-up of the loop. Logging is not modelled.
\<close>

record LeaderElectionCallbacks =
  OnStartedLeading :: bool
  OnStoppedLeading :: bool
  OnNewLeader :: bool

datatype event =
  Api api_call
| Go_OnStartedLeading
| Go_OnStoppedLeading
| Go_OnNewLeader
| Call_OnStoppedLeading
| Ticker_Stop
| Close_stoppedCh

record ElectionController =
  callbacks :: LeaderElectionCallbacks
  isLeader :: bool
  isRunning :: bool
  currentLeader :: string
  lastLeaderChange :: "time option"
  leadershipChanges :: int64
  acquisitionErrors :: int64
  renewalErrors :: int64

definition NewElectionController :: "LeaderElectionCallbacks \<Rightarrow> ElectionController" where
  "NewElectionController cbs =
     \<lparr>callbacks = cbs, isLeader = False, isRunning = False, currentLeader = [],
      lastLeaderChange = None, leadershipChanges = 0, acquisitionErrors = 0,
      renewalErrors = 0\<rparr>"

definition GetCurrentLeader :: "ElectionController \<Rightarrow> string" where
  "GetCurrentLeader ec = currentLeader ec"

definition updateLeadershipState ::
  "ElectionController \<Rightarrow> bool \<Rightarrow> LeaseInfo \<Rightarrow> time \<Rightarrow> ElectionController \<times> event list" where
  "updateLeadershipState ec acquired leaseInfo now =
     (let wasLeader = isLeader ec;
          oldLeader = currentLeader ec;
          ec1 = ec\<lparr>isLeader := acquired, currentLeader := info_HolderIdentity leaseInfo\<rparr>;
          leadershipChanged = (wasLeader \<noteq> isLeader ec1);
          leaderChanged = (oldLeader \<noteq> currentLeader ec1);
          ec2 = (if leadershipChanged \<or> leaderChanged
                 then ec1\<lparr>lastLeaderChange := Some now,
                          leadershipChanges := leadershipChanges ec1 + 1\<rparr>
                 else ec1);
          evs1 = (if leadershipChanged
                  then (if isLeader ec2
                        then (if OnStartedLeading (callbacks ec2) then [Go_OnStartedLeading] else [])
                        else (if OnStoppedLeading (callbacks ec2) then [Go_OnStoppedLeading] else []))
                  else []);
          evs2 = (if leaderChanged \<and> OnNewLeader (callbacks ec2) then [Go_OnNewLeader] else [])
      in (ec2, evs1 @ evs2))"

definition stepDown :: "ElectionController \<Rightarrow> ElectionController \<times> event list" where
  "stepDown ec =
     (let wasLeader = isLeader ec;
          ec1 = ec\<lparr>isLeader := False\<rparr>
      in if wasLeader
         then (ec1, if OnStoppedLeading (callbacks ec1) then [Go_OnStoppedLeading] else [])
         else (ec1, []))"

text \<open>
  One pass of \<^verbatim>\<open>tryAcquireLease\<close>. Its inputs from outside: the clock reading and the
  API server's answers during \<^verbatim>\<open>AcquireLease\<close>, the answers during
  \<^verbatim>\<open>GetLeaseInfo\<close>, and the clock reading in \<^verbatim>\<open>updateLeadershipState\<close>.
  A panic of \<^verbatim>\<open>AcquireLease\<close> leaves the function at once (third component).
\<close>

record attempt =
  acquire_now :: time
  acquire_api :: Clientset
  info_api :: Clientset
  update_now :: time

definition tryAcquireLease ::
  "LeaseManager \<Rightarrow> go_context \<Rightarrow> attempt \<Rightarrow> ElectionController
     \<Rightarrow> ElectionController \<times> event list \<times> go_panic option" where
  "tryAcquireLease lm ctx a ec =
     (let (calls, r) = AcquireLease (lm\<lparr>clientset := acquire_api a\<rparr>) ctx (acquire_now a) in
      case r of
        Inl p \<Rightarrow> (ec, map Api calls, Some p)
      | Inr (acquired, Some err) \<Rightarrow>
          (let ec1 = (if isLeader ec
                      then ec\<lparr>acquisitionErrors := acquisitionErrors ec + 1\<rparr>
                      else ec\<lparr>renewalErrors := renewalErrors ec + 1\<rparr>)
           in if isLeader ec1
              then (let (ec2, evs) = stepDown ec1 in (ec2, map Api calls @ evs, None))
              else (ec1, map Api calls, None))
      | Inr (acquired, None) \<Rightarrow>
          (let (calls2, ri) = GetLeaseInfo (lm\<lparr>clientset := info_api a\<rparr>) ctx in
           case ri of
             Inl err \<Rightarrow> (ec, map Api (calls @ calls2), None)
           | Inr leaseInfo \<Rightarrow>
               (let (ec2, evs) = updateLeadershipState ec acquired leaseInfo (update_now a)
                in (ec2, map Api (calls @ calls2) @ evs, None))))"

definition releaseLeadershipOnExit ::
  "LeaseManager \<Rightarrow> ElectionController \<Rightarrow> ElectionController \<times> event list" where
  "releaseLeadershipOnExit lm ec =
     (let wasLeader = isLeader ec;
          ec1 = ec\<lparr>isLeader := False\<rparr>
      in if wasLeader
         then (let releaseCtx = WithTimeout Background (5 * Second);
                   (calls, err) = ReleaseLease lm releaseCtx
               in (ec1, map Api calls
                        @ (if OnStoppedLeading (callbacks ec1) then [Call_OnStoppedLeading] else [])))
         else (ec1, []))"

text \<open>
  The \<^verbatim>\<open>select\<close> of the loop: the list gives the case it takes each time
  round. A tick carries the inputs of the attempt it starts. When the list ends no case
  ever becomes ready again, the loop stays blocked and \<^verbatim>\<open>run\<close> does not
  return: \<open>None\<close>.
\<close>

datatype select_case = CtxDone | StopCh | TickerC attempt

fun election_loop ::
  "LeaseManager \<Rightarrow> go_context \<Rightarrow> select_case list \<Rightarrow> ElectionController
     \<Rightarrow> (ElectionController \<times> event list \<times> go_panic option) option" where
  "election_loop lm ctx [] ec = None"
| "election_loop lm ctx (CtxDone # rest) ec = Some (ec, [], None)"
| "election_loop lm ctx (StopCh # rest) ec = Some (ec, [], None)"
| "election_loop lm ctx (TickerC a # rest) ec =
     (case tryAcquireLease lm ctx a ec of
        (ec1, evs, Some p) \<Rightarrow> Some (ec1, evs, Some p)
      | (ec1, evs, None) \<Rightarrow>
          (case election_loop lm ctx rest ec1 of
             None \<Rightarrow> None
           | Some (ec2, evs2, p) \<Rightarrow> Some (ec2, evs @ evs2, p)))"

text \<open>
  \<open>run_body\<close> is \<^verbatim>\<open>run\<close> from \<^verbatim>\<open>time.NewTicker\<close> up to the point where it
  leaves the loop (by a \<^verbatim>\<open>return\<close> or a panic). \<^verbatim>\<open>time.NewTicker\<close> panics when
  the retry period is not positive; the controller's configuration is the lease manager's.
  \<open>run\<close> then executes the deferred calls, last deferred first:
  \<^verbatim>\<open>ticker.Stop()\<close> (deferred only once the ticker exists),
  \<^verbatim>\<open>releaseLeadershipOnExit\<close>, \<^verbatim>\<open>close(stoppedCh)\<close>. \<open>exit_api\<close> holds the API
  server's answers during the release.
\<close>

definition run_body ::
  "LeaseManager \<Rightarrow> go_context \<Rightarrow> attempt \<Rightarrow> select_case list \<Rightarrow> ElectionController
     \<Rightarrow> (ElectionController \<times> event list \<times> go_panic option) option" where
  "run_body lm ctx first ready ec =
     (if RetryPeriod (config lm) \<le> 0 then Some (ec, [], Some NonPositiveTickerInterval)
      else
        case tryAcquireLease lm ctx first ec of
          (ec1, evs, Some p) \<Rightarrow> Some (ec1, evs, Some p)
        | (ec1, evs, None) \<Rightarrow>
            (case election_loop lm ctx ready ec1 of
               None \<Rightarrow> None
             | Some (ec2, evs2, p) \<Rightarrow> Some (ec2, evs @ evs2, p)))"

definition run_deferred ::
  "LeaseManager \<Rightarrow> Clientset \<Rightarrow> ElectionController \<Rightarrow> ElectionController \<times> event list" where
  "run_deferred lm exit_api ec =
     (let (ec1, evs) = releaseLeadershipOnExit (lm\<lparr>clientset := exit_api\<rparr>) ec
      in (ec1, (if RetryPeriod (config lm) \<le> 0 then [] else [Ticker_Stop])
               @ evs @ [Close_stoppedCh]))"

definition run ::
  "LeaseManager \<Rightarrow> go_context \<Rightarrow> attempt \<Rightarrow> select_case list \<Rightarrow> Clientset
     \<Rightarrow> ElectionController \<Rightarrow> (ElectionController \<times> event list \<times> go_panic option) option" where
  "run lm ctx first ready exit_api ec =
     (case run_body lm ctx first ready ec of
        None \<Rightarrow> None
      | Some (ec1, evs, p) \<Rightarrow>
          (let (ec2, evs2) = run_deferred lm exit_api ec1 in Some (ec2, evs @ evs2, p)))"

section \<open>Leader-aware server (pkg/server/leader.go)\<close>

text \<open>
  The wrapped KMS server is a parameter: what its \<^verbatim>\<open>Seal\<close> and \<^verbatim>\<open>Unseal\<close>
  return for a request. Calls that reach it are recorded.
\<close>

record ('req, 'resp) Server =
  server_Seal :: "'req \<Rightarrow> 'resp option \<times> go_error option"
  server_Unseal :: "'req \<Rightarrow> 'resp option \<times> go_error option"

datatype 'req server_call = Call_Seal 'req | Call_Unseal 'req

record ('req, 'resp) LeaderAwareServer =
  server :: "('req, 'resp) Server"
  electionController :: ElectionController
  las_isLeader :: bool
  las_isActive :: bool

definition NewLeaderAwareServer ::
  "('req, 'resp) Server \<Rightarrow> ElectionController \<Rightarrow> ('req, 'resp) LeaderAwareServer" where
  "NewLeaderAwareServer srv ec =
     \<lparr>server = srv, electionController = ec, las_isLeader = False, las_isActive = False\<rparr>"

definition OnBecomeLeader ::
  "('req, 'resp) LeaderAwareServer \<Rightarrow> ('req, 'resp) LeaderAwareServer" where
  "OnBecomeLeader las = las\<lparr>las_isLeader := True, las_isActive := True\<rparr>"

definition OnLoseLeadership ::
  "('req, 'resp) LeaderAwareServer \<Rightarrow> ('req, 'resp) LeaderAwareServer" where
  "OnLoseLeadership las = las\<lparr>las_isLeader := False, las_isActive := False\<rparr>"

text \<open>\<^verbatim>\<open>OnLeaderChange\<close> only logs.\<close>

definition OnLeaderChange ::
  "('req, 'resp) LeaderAwareServer \<Rightarrow> string \<Rightarrow> ('req, 'resp) LeaderAwareServer" where
  "OnLeaderChange las leader = las"

definition checkLeadership :: "('req, 'resp) LeaderAwareServer \<Rightarrow> bool" where
  "checkLeadership las = (las_isLeader las \<and> las_isActive las)"

definition createNotLeaderError :: "('req, 'resp) LeaderAwareServer \<Rightarrow> go_error" where
  "createNotLeaderError las =
     (let leader = GetCurrentLeader (electionController las)
      in if leader = [] then Status Unavailable ''No leader elected - service unavailable''
         else Status Unavailable (''Not the leader - current leader is '' @ leader))"

definition Seal ::
  "('req, 'resp) LeaderAwareServer \<Rightarrow> 'req
     \<Rightarrow> 'req server_call list \<times> ('resp option \<times> go_error option)" where
  "Seal las request =
     (if \<not> checkLeadership las then ([], (None, Some (createNotLeaderError las)))
      else ([Call_Seal request], server_Seal (server las) request))"

definition Unseal ::
  "('req, 'resp) LeaderAwareServer \<Rightarrow> 'req
     \<Rightarrow> 'req server_call list \<times> ('resp option \<times> go_error option)" where
  "Unseal las request =
     (if \<not> checkLeadership las then ([], (None, Some (createNotLeaderError las)))
      else ([Call_Unseal request], server_Unseal (server las) request))"

text \<open>
  The wiring of the command's main function: the server's \<^verbatim>\<open>OnBecomeLeader\<close> and
  \<^verbatim>\<open>OnLoseLeadership\<close> are the controller's \<^verbatim>\<open>OnStartedLeading\<close> and
  \<^verbatim>\<open>OnStoppedLeading\<close> hooks (through \<^verbatim>\<open>BuildGracefulShutdownCallbacks\<close>), and
  \<^verbatim>\<open>OnLeaderChange\<close> is its \<^verbatim>\<open>OnNewLeader\<close> hook. \<open>deliver\<close> is the effect on
  the server of one event of the controller, once the hook that event started has run.
  The identity handed to \<^verbatim>\<open>OnLeaderChange\<close> is read when the goroutine runs; the hook
  ignores it.
\<close>

fun deliver ::
  "event \<Rightarrow> ('req, 'resp) LeaderAwareServer \<Rightarrow> ('req, 'resp) LeaderAwareServer" where
  "deliver Go_OnStartedLeading las = OnBecomeLeader las"
| "deliver Go_OnStoppedLeading las = OnLoseLeadership las"
| "deliver Call_OnStoppedLeading las = OnLoseLeadership las"
| "deliver Go_OnNewLeader las = OnLeaderChange las (GetCurrentLeader (electionController las))"
| "deliver (Api c) las = las"
| "deliver Ticker_Stop las = las"
| "deliver Close_stoppedCh las = las"

section \<open>Notions of the specification\<close>

text \<open>
  The eligibility predicate in the specification's words: the holder is this instance,
  or the holder is unset, or the renew time is unset, or the current time is after the
  renew time plus the lease duration. A lease without a duration has no expiry to be
  after.
\<close>

definition spec_eligible :: "LeaseManager \<Rightarrow> Lease \<Rightarrow> time \<Rightarrow> bool" where
  "spec_eligible lm lease now =
     (HolderIdentity (Spec lease) = Some (Identity (config lm))
      \<or> HolderIdentity (Spec lease) = None
      \<or> RenewTime (Spec lease) = None
      \<or> (case (RenewTime (Spec lease), LeaseDurationSeconds (Spec lease)) of
            (Some renew, Some secs) \<Rightarrow> now > renew + sint secs * Second
          | _ \<Rightarrow> False))"

fun is_write :: "api_call \<Rightarrow> bool" where
  "is_write (ApiUpdate ctx ns lease) = True"
| "is_write (ApiCreate ctx ns lease) = False"
| "is_write (ApiGet ctx ns name) = False"

definition write_attempted :: "api_call list \<Rightarrow> bool" where
  "write_attempted calls = list_ex is_write calls"

section \<open>Concrete inputs\<close>

definition cfgA :: LeaseConfig where
  "cfgA = DefaultLeaseConfig\<lparr>Identity := ''A''\<rparr>"

definition managerA :: "Clientset \<Rightarrow> LeaseManager" where
  "managerA cs =
     \<lparr>config = cfgA, clientset = cs, seconds_int32 = (\<lambda>d. word_of_int (d div Second))\<rparr>"

text \<open>An API server that returns \<open>g\<close> on a read and accepts every write.\<close>

definition api :: "go_error + Lease \<Rightarrow> Clientset" where
  "api g = \<lparr>Leases_Get = g, Leases_Create = (\<lambda>_. None), Leases_Update = (\<lambda>_. None)\<rparr>"

text \<open>An API server on which every call fails.\<close>

definition api_down :: Clientset where
  "api_down =
     \<lparr>Leases_Get = Inl (New ''connection refused''),
      Leases_Create = (\<lambda>_. Some (New ''connection refused'')),
      Leases_Update = (\<lambda>_. Some (New ''connection refused''))\<rparr>"

definition leaseA :: Lease where
  "leaseA =
     \<lparr>meta_Name = ''talos-kms-leader'', meta_Namespace = ''default'',
      Spec = \<lparr>HolderIdentity = Some ''A'', LeaseDurationSeconds = Some 15,
              AcquireTime = Some 0, RenewTime = Some 0, LeaseTransitions = Some 3\<rparr>\<rparr>"

definition leaseB :: Lease where
  "leaseB =
     \<lparr>meta_Name = ''talos-kms-leader'', meta_Namespace = ''default'',
      Spec = \<lparr>HolderIdentity = Some ''B'', LeaseDurationSeconds = Some 15,
              AcquireTime = Some 0, RenewTime = Some 0, LeaseTransitions = Some 0\<rparr>\<rparr>"

definition leaseB_no_duration :: Lease where
  "leaseB_no_duration =
     \<lparr>meta_Name = ''talos-kms-leader'', meta_Namespace = ''default'',
      Spec = \<lparr>HolderIdentity = Some ''B'', LeaseDurationSeconds = None,
              AcquireTime = Some 0, RenewTime = Some 0, LeaseTransitions = Some 0\<rparr>\<rparr>"

definition cbs_all :: LeaderElectionCallbacks where
  "cbs_all = \<lparr>OnStartedLeading = True, OnStoppedLeading = True, OnNewLeader = True\<rparr>"

definition follower_of_A :: ElectionController where
  "follower_of_A = (NewElectionController cbs_all)\<lparr>currentLeader := ''A''\<rparr>"

definition leaderA :: ElectionController where
  "leaderA = (NewElectionController cbs_all)\<lparr>isLeader := True, currentLeader := ''A''\<rparr>"

definition info_holder :: "string \<Rightarrow> LeaseInfo" where
  "info_holder h =
     \<lparr>info_Name = ''talos-kms-leader'', info_Namespace = ''default'', info_HolderIdentity = h,
      info_IsLeader = False, info_AcquireTime = Some 0, info_RenewTime = Some 0,
      info_LeaseTransitions = 1, info_LeaseDuration = 15 * Second\<rparr>"

definition attempt_down :: attempt where
  "attempt_down =
     \<lparr>acquire_now = 30 * Second, acquire_api = api_down, info_api = api_down,
      update_now = 30 * Second\<rparr>"

text \<open>An attempt that finds this instance's own lease and renews it.\<close>

definition attempt_renew :: attempt where
  "attempt_renew =
     \<lparr>acquire_now = 5 * Second, acquire_api = api (Inr leaseA),
      info_api = api (Inr leaseA), update_now = 5 * Second\<rparr>"

text \<open>
  An API server that returns the lease held by A on a read and rejects every write.
\<close>

definition api_read_only :: Clientset where
  "api_read_only =
     \<lparr>Leases_Get = Inr leaseA,
      Leases_Create = (\<lambda>_. Some (New ''connection refused'')),
      Leases_Update = (\<lambda>_. Some (New ''connection refused''))\<rparr>"

definition echo_server :: "(string, string) Server" where
  "echo_server =
     \<lparr>server_Seal = (\<lambda>r. (Some r, None)), server_Unseal = (\<lambda>r. (Some r, None))\<rparr>"

definition passive_gate :: "(string, string) LeaderAwareServer" where
  "passive_gate =
     NewLeaderAwareServer echo_server ((NewElectionController cbs_all)\<lparr>currentLeader := ''B''\<rparr>)"

section \<open>Arithmetic of the lease fields\<close>

lemma leaseDuration_fits_int64:
  "- (2 ^ 63) \<le> sint (secs :: int32) * Second \<and> sint secs * Second < 2 ^ 63"
proof -
  have "- (2 ^ 31) \<le> sint secs" "sint secs < 2 ^ 31"
    using sint_ge [of secs] sint_lt [of secs] by simp_all
  then show ?thesis by (simp add: Second_def)
qed

text \<open>
  \<^verbatim>\<open>*lease.Spec.LeaseTransitions++\<close> is an \<^verbatim>\<open>int32\<close> increment: below the largest
  \<^verbatim>\<open>int32\<close> it adds one to the signed value.
\<close>

lemma LeaseTransitions_increment_sint:
  assumes "sint (n :: int32) < 2 ^ 31 - 1"
  shows "sint (n + 1) = sint n + 1"
proof -
  have lo: "- (2 ^ 31) \<le> sint n + 1"
    using sint_ge [of n] by simp
  have hi: "sint n + 1 < 2 ^ 31"
    using assms by simp
  have "sint (n + 1) = signed_take_bit 31 (sint n + sint (1 :: int32))"
    by (simp add: sint_word_ariths)
  also have "\<dots> = signed_take_bit 31 (sint n + 1)"
    by simp
  also have "\<dots> = sint n + 1"
    using lo hi by (simp add: signed_take_bit_int_eq_self)
  finally show ?thesis .
qed

section \<open>Acquiring the lease\<close>

lemma updateLease_calls:
  "\<exists>l r. updateLease lm ctx lease now = ([ApiUpdate ctx (Namespace (config lm)) l], r)"
  by (simp add: updateLease_def Let_def)

text \<open>
  On a lease that carries a duration, \<^verbatim>\<open>AcquireLease\<close> sends the update exactly when
  the lease is eligible in the specification's sense, and otherwise returns
  \<^verbatim>\<open>(false, nil)\<close> after the read alone.
\<close>

lemma AcquireLease_existing_eligibility:
  assumes "Leases_Get (clientset lm) = Inr lease"
    and "LeaseDurationSeconds (Spec lease) \<noteq> None"
  shows "write_attempted (fst (AcquireLease lm ctx now)) = spec_eligible lm lease now
       \<and> (\<not> spec_eligible lm lease now \<longrightarrow>
            AcquireLease lm ctx now =
              ([ApiGet ctx (Namespace (config lm)) (Name (config lm))], Inr (False, None)))"
  using assms updateLease_calls [of lm ctx lease now]
  by (auto simp: AcquireLease_def canAcquireLease_def spec_eligible_def write_attempted_def
      Let_def split: option.splits prod.splits)

text \<open>
  Claim C1. For every existing lease and every current time, \<^verbatim>\<open>AcquireLease\<close> attempts
  the write iff the lease is eligible (held by this instance, or holder unset, or renew
  time unset, or expired), and returns \<^verbatim>\<open>(false, nil)\<close> when it is not.

  The code does not do so on the lease \<open>leaseB_no_duration\<close>, held by another instance,
  with a renew time and no \<^verbatim>\<open>leaseDurationSeconds\<close>: instance A reads it and
  \<^verbatim>\<open>canAcquireLease\<close> dereferences the nil duration. No write is attempted and
  nothing is returned, whether or not one counts that lease as expired.
\<close>

theorem AcquireLease_nil_duration_panics:
  "AcquireLease (managerA (api (Inr leaseB_no_duration))) CallerCtx (20 * Second) =
     ([ApiGet CallerCtx ''default'' ''talos-kms-leader''], Inl NilPointerDereference)
   \<and> \<not> write_attempted
         (fst (AcquireLease (managerA (api (Inr leaseB_no_duration))) CallerCtx (20 * Second)))
   \<and> snd (AcquireLease (managerA (api (Inr leaseB_no_duration))) CallerCtx (20 * Second))
       \<noteq> Inr (False, None)"
  by (simp add: AcquireLease_def canAcquireLease_def managerA_def api_def cfgA_def
      DefaultLeaseConfig_def leaseB_no_duration_def write_attempted_def)

text \<open>
  Claim C9. The eligibility check returns a boolean except on a lease whose holder is set
  to another identity, whose renew time is set and whose \<^verbatim>\<open>leaseDurationSeconds\<close> is
  unset: there, and only there, it dereferences a nil pointer.
\<close>

theorem canAcquireLease_total_iff:
  "((canAcquireLease lm lease now = Inl NilPointerDereference) =
      ((\<exists>h. HolderIdentity (Spec lease) = Some h \<and> h \<noteq> Identity (config lm))
       \<and> RenewTime (Spec lease) \<noteq> None
       \<and> LeaseDurationSeconds (Spec lease) = None))
   \<and> ((\<exists>b. canAcquireLease lm lease now = Inr b) =
      (\<not> ((\<exists>h. HolderIdentity (Spec lease) = Some h \<and> h \<noteq> Identity (config lm))
          \<and> RenewTime (Spec lease) \<noteq> None
          \<and> LeaseDurationSeconds (Spec lease) = None)))"
  by (auto simp: canAcquireLease_def Let_def split: option.splits)

theorem canAcquireLease_total_iff_witness:
  "canAcquireLease (managerA (api (Inr leaseB_no_duration))) leaseB_no_duration (20 * Second)
     = Inl NilPointerDereference
   \<and> (\<exists>b. canAcquireLease (managerA (api (Inr leaseB))) leaseB (20 * Second) = Inr b)"
  using canAcquireLease_total_iff
      [of "managerA (api (Inr leaseB_no_duration))" leaseB_no_duration "20 * Second"]
    canAcquireLease_total_iff [of "managerA (api (Inr leaseB))" leaseB "20 * Second"]
  by (simp add: managerA_def api_def cfgA_def DefaultLeaseConfig_def leaseB_def
      leaseB_no_duration_def)

text \<open>
  Claim C5. When the lease is held by someone else (or by nobody) and its renew time plus
  its duration is before the current time, and the API server accepts the update,
  \<^verbatim>\<open>AcquireLease\<close> returns \<^verbatim>\<open>(true, nil)\<close>; the lease it writes has this instance
  as holder, the current time as acquire and renew time, and a transition count one
  higher (1 when the count was unset). The increment is that of an \<^verbatim>\<open>int32\<close>.
\<close>

theorem AcquireLease_expiry_takeover:
  fixes lm :: LeaseManager and lease :: Lease and now :: time
  defines "new \<equiv> lease\<lparr>Spec := (Spec lease)
             \<lparr>HolderIdentity := Some (Identity (config lm)),
              RenewTime := Some now,
              AcquireTime := Some now,
              LeaseTransitions := (case LeaseTransitions (Spec lease) of
                                     Some n \<Rightarrow> Some (n + 1) | None \<Rightarrow> Some 1)\<rparr>\<rparr>"
  assumes "Leases_Get (clientset lm) = Inr lease"
    and "HolderIdentity (Spec lease) \<noteq> Some (Identity (config lm))"
    and "RenewTime (Spec lease) = Some renew"
    and "LeaseDurationSeconds (Spec lease) = Some secs"
    and "renew + sint secs * Second < now"
    and "Leases_Update (clientset lm) new = None"
  shows "AcquireLease lm ctx now =
           ([ApiGet ctx (Namespace (config lm)) (Name (config lm)),
             ApiUpdate ctx (Namespace (config lm)) new], Inr (True, None))
         \<and> (\<forall>n. LeaseTransitions (Spec lease) = Some n \<and> sint n < 2 ^ 31 - 1 \<longrightarrow>
               (\<exists>m. LeaseTransitions (Spec new) = Some m \<and> sint m = sint n + 1))"
proof -
  have "AcquireLease lm ctx now =
           ([ApiGet ctx (Namespace (config lm)) (Name (config lm)),
             ApiUpdate ctx (Namespace (config lm)) new], Inr (True, None))"
    using assms
    by (auto simp: AcquireLease_def canAcquireLease_def updateLease_def Let_def
        split: option.splits)
  moreover have "\<exists>m. LeaseTransitions (Spec new) = Some m \<and> sint m = sint n + 1"
    if "LeaseTransitions (Spec lease) = Some n" and "sint n < 2 ^ 31 - 1" for n
    using that by (simp add: new_def LeaseTransitions_increment_sint)
  ultimately show ?thesis by blast
qed

theorem AcquireLease_expiry_takeover_witness:
  "AcquireLease (managerA (api (Inr leaseB))) CallerCtx (20 * Second) =
     ([ApiGet CallerCtx ''default'' ''talos-kms-leader'',
       ApiUpdate CallerCtx ''default''
         \<lparr>meta_Name = ''talos-kms-leader'', meta_Namespace = ''default'',
          Spec = \<lparr>HolderIdentity = Some ''A'', LeaseDurationSeconds = Some 15,
                  AcquireTime = Some (20 * Second), RenewTime = Some (20 * Second),
                  LeaseTransitions = Some 1\<rparr>\<rparr>],
      Inr (True, None))"
  using AcquireLease_expiry_takeover
    [where lm = "managerA (api (Inr leaseB))" and lease = leaseB and now = "20 * Second"
       and ctx = CallerCtx and renew = 0 and secs = 15]
  by (simp add: managerA_def api_def cfgA_def DefaultLeaseConfig_def leaseB_def Second_def)

text \<open>
  Claim C6. When the lease is held by this instance, \<^verbatim>\<open>AcquireLease\<close> passes the
  eligibility check whatever the renew time is and sends one update, which leaves the
  acquire time, the transition count and the duration as they were, rewrites the holder
  to the same value and sets the renew time to the current time; it returns
  \<^verbatim>\<open>(true, nil)\<close> when the API server accepts that update.
\<close>

theorem AcquireLease_renewal_frame:
  fixes lm :: LeaseManager and lease :: Lease and now :: time
  defines "new \<equiv> lease\<lparr>Spec := (Spec lease)
             \<lparr>HolderIdentity := Some (Identity (config lm)), RenewTime := Some now\<rparr>\<rparr>"
  assumes "Leases_Get (clientset lm) = Inr lease"
    and "HolderIdentity (Spec lease) = Some (Identity (config lm))"
  shows "fst (AcquireLease lm ctx now) =
           [ApiGet ctx (Namespace (config lm)) (Name (config lm)),
            ApiUpdate ctx (Namespace (config lm)) new]
         \<and> AcquireTime (Spec new) = AcquireTime (Spec lease)
         \<and> LeaseTransitions (Spec new) = LeaseTransitions (Spec lease)
         \<and> LeaseDurationSeconds (Spec new) = LeaseDurationSeconds (Spec lease)
         \<and> HolderIdentity (Spec new) = HolderIdentity (Spec lease)
         \<and> RenewTime (Spec new) = Some now
         \<and> (Leases_Update (clientset lm) new = None \<longrightarrow>
              snd (AcquireLease lm ctx now) = Inr (True, None))"
  using assms
  by (auto simp: AcquireLease_def canAcquireLease_def updateLease_def Let_def
      split: option.splits)

theorem AcquireLease_renewal_frame_witness:
  "fst (AcquireLease (managerA (api (Inr leaseA))) CallerCtx (5 * Second)) =
     [ApiGet CallerCtx ''default'' ''talos-kms-leader'',
      ApiUpdate CallerCtx ''default''
        \<lparr>meta_Name = ''talos-kms-leader'', meta_Namespace = ''default'',
         Spec = \<lparr>HolderIdentity = Some ''A'', LeaseDurationSeconds = Some 15,
                 AcquireTime = Some 0, RenewTime = Some (5 * Second),
                 LeaseTransitions = Some 3\<rparr>\<rparr>]
   \<and> snd (AcquireLease (managerA (api (Inr leaseA))) CallerCtx (5 * Second)) = Inr (True, None)"
  using AcquireLease_renewal_frame
    [where lm = "managerA (api (Inr leaseA))" and lease = leaseA and now = "5 * Second"
       and ctx = CallerCtx]
  by (simp add: managerA_def api_def cfgA_def DefaultLeaseConfig_def leaseA_def)

text \<open>
  Claim C10. Whatever error the read returns, \<^verbatim>\<open>AcquireLease\<close> goes on to create the
  lease with this instance as holder, and its result is the outcome of that create call:
  \<^verbatim>\<open>(true, nil)\<close> if it is accepted, the wrapped create error if it is rejected. The
  read error is dropped and nothing is retried.
\<close>

theorem AcquireLease_read_error_creates:
  fixes lm :: LeaseManager and now :: time
  defines "new \<equiv>
     \<lparr>meta_Name = Name (config lm), meta_Namespace = Namespace (config lm),
      Spec = \<lparr>HolderIdentity = Some (Identity (config lm)),
              LeaseDurationSeconds = Some (seconds_int32 lm (LeaseDuration (config lm))),
              AcquireTime = Some now, RenewTime = Some now, LeaseTransitions = Some 0\<rparr>\<rparr>"
  assumes "Leases_Get (clientset lm) = Inl err"
  shows "AcquireLease lm ctx now =
           ([ApiGet ctx (Namespace (config lm)) (Name (config lm)),
             ApiCreate ctx (Namespace (config lm)) new],
            Inr (case Leases_Create (clientset lm) new of
                   None \<Rightarrow> (True, None)
                 | Some cerr \<Rightarrow> (False, Some (Wrap ''failed to create lease: '' cerr))))"
  using assms
  by (auto simp: AcquireLease_def createLease_def Let_def split: option.splits)

theorem AcquireLease_read_error_creates_witness:
  "AcquireLease
     (managerA \<lparr>Leases_Get = Inl (New ''context deadline exceeded''),
                Leases_Create = (\<lambda>_. Some (Status AlreadyExists ''lease already exists'')),
                Leases_Update = (\<lambda>_. None)\<rparr>) CallerCtx 7 =
     ([ApiGet CallerCtx ''default'' ''talos-kms-leader'',
       ApiCreate CallerCtx ''default''
         \<lparr>meta_Name = ''talos-kms-leader'', meta_Namespace = ''default'',
          Spec = \<lparr>HolderIdentity = Some ''A'', LeaseDurationSeconds = Some 15,
                  AcquireTime = Some 7, RenewTime = Some 7, LeaseTransitions = Some 0\<rparr>\<rparr>],
      Inr (False, Some (Wrap ''failed to create lease: ''
                         (Status AlreadyExists ''lease already exists''))))"
  using AcquireLease_read_error_creates
    [where lm = "managerA \<lparr>Leases_Get = Inl (New ''context deadline exceeded''),
                Leases_Create = (\<lambda>_. Some (Status AlreadyExists ''lease already exists'')),
                Leases_Update = (\<lambda>_. None)\<rparr>" and now = 7 and ctx = CallerCtx
       and err = "New ''context deadline exceeded''"]
  by (simp add: managerA_def cfgA_def DefaultLeaseConfig_def Second_def)

section \<open>The election controller\<close>

text \<open>
  Claim C2, as the code has it. After \<^verbatim>\<open>updateLeadershipState\<close> the controller holds
  the new leadership flag and the observed holder. \<^verbatim>\<open>leadershipChanges\<close> is
  incremented and \<^verbatim>\<open>lastLeaderChange\<close> recorded exactly when the local leadership
  flag flipped or the observed leader identity changed. \<^verbatim>\<open>OnStartedLeading\<close> and
  \<^verbatim>\<open>OnStoppedLeading\<close> are dispatched exactly on a flip of the flag (when set), and
  \<^verbatim>\<open>OnNewLeader\<close> exactly on a change of the identity (when set). A change of the
  identity alone therefore increments the counter and dispatches \<^verbatim>\<open>OnNewLeader\<close>
  only.
\<close>

theorem updateLeadershipState_bookkeeping:
  fixes ec :: ElectionController and acquired :: bool and leaseInfo :: LeaseInfo and now :: time
  defines "changed \<equiv>
             (isLeader ec \<noteq> acquired \<or> currentLeader ec \<noteq> info_HolderIdentity leaseInfo)"
    and "ec' \<equiv> fst (updateLeadershipState ec acquired leaseInfo now)"
    and "evs \<equiv> snd (updateLeadershipState ec acquired leaseInfo now)"
  shows "isLeader ec' = acquired \<and> currentLeader ec' = info_HolderIdentity leaseInfo
     \<and> leadershipChanges ec' = (if changed then leadershipChanges ec + 1 else leadershipChanges ec)
     \<and> lastLeaderChange ec' = (if changed then Some now else lastLeaderChange ec)
     \<and> (leadershipChanges ec' \<noteq> leadershipChanges ec) = changed
     \<and> (Go_OnStartedLeading \<in> set evs) =
         (\<not> isLeader ec \<and> acquired \<and> OnStartedLeading (callbacks ec))
     \<and> (Go_OnStoppedLeading \<in> set evs) =
         (isLeader ec \<and> \<not> acquired \<and> OnStoppedLeading (callbacks ec))
     \<and> (Go_OnNewLeader \<in> set evs) =
         (currentLeader ec \<noteq> info_HolderIdentity leaseInfo \<and> OnNewLeader (callbacks ec))
     \<and> (isLeader ec = acquired \<and> currentLeader ec \<noteq> info_HolderIdentity leaseInfo \<longrightarrow>
           leadershipChanges ec' = leadershipChanges ec + 1
           \<and> evs = (if OnNewLeader (callbacks ec) then [Go_OnNewLeader] else []))"
  unfolding changed_def ec'_def evs_def
  by (auto simp: updateLeadershipState_def Let_def split: if_splits)

theorem updateLeadershipState_bookkeeping_witness:
  "leadershipChanges (fst (updateLeadershipState leaderA True (info_holder ''B'') 42)) = 1
   \<and> lastLeaderChange (fst (updateLeadershipState leaderA True (info_holder ''B'') 42)) = Some 42
   \<and> snd (updateLeadershipState leaderA True (info_holder ''B'') 42) = [Go_OnNewLeader]"
  using updateLeadershipState_bookkeeping [of leaderA True "info_holder ''B''" 42]
  by (simp add: leaderA_def NewElectionController_def info_holder_def cbs_all_def)

text \<open>
  The claim as stated fails: a follower that sees the holder change from A to B stays a
  follower, yet its \<^verbatim>\<open>leadershipChanges\<close> goes from 0 to 1 and the time is recorded.
\<close>

theorem updateLeadershipState_counts_identity_change:
  "isLeader (fst (updateLeadershipState follower_of_A False (info_holder ''B'') 42))
     = isLeader follower_of_A
   \<and> leadershipChanges follower_of_A = 0
   \<and> leadershipChanges (fst (updateLeadershipState follower_of_A False (info_holder ''B'') 42)) = 1
   \<and> lastLeaderChange follower_of_A = None
   \<and> lastLeaderChange (fst (updateLeadershipState follower_of_A False (info_holder ''B'') 42))
       = Some 42"
  by (simp add: updateLeadershipState_def follower_of_A_def NewElectionController_def
      info_holder_def cbs_all_def Let_def)

lemma count_list_Api:
  "count_list (map Api calls) Go_OnStoppedLeading = 0"
  "count_list (map Api calls) Call_OnStoppedLeading = 0"
  by (induction calls) simp_all

text \<open>
  Claim C4. When the controller is the local leader and \<^verbatim>\<open>AcquireLease\<close> returns an
  error, \<^verbatim>\<open>tryAcquireLease\<close> returns with the leadership flag cleared (and the error
  counted), and it has dispatched \<^verbatim>\<open>OnStoppedLeading\<close> exactly once, the hook being
  optional: a controller built without it has nothing to dispatch.
\<close>

theorem tryAcquireLease_error_steps_down:
  assumes "isLeader ec"
    and "AcquireLease (lm\<lparr>clientset := acquire_api a\<rparr>) ctx (acquire_now a)
           = (calls, Inr (acquired, Some err))"
  shows "tryAcquireLease lm ctx a ec =
           (ec\<lparr>acquisitionErrors := acquisitionErrors ec + 1, isLeader := False\<rparr>,
            map Api calls @ (if OnStoppedLeading (callbacks ec) then [Go_OnStoppedLeading] else []),
            None)
       \<and> \<not> isLeader (fst (tryAcquireLease lm ctx a ec))
       \<and> count_list (fst (snd (tryAcquireLease lm ctx a ec))) Go_OnStoppedLeading
           + count_list (fst (snd (tryAcquireLease lm ctx a ec))) Call_OnStoppedLeading
           = (if OnStoppedLeading (callbacks ec) then 1 else 0)"
  using assms
  by (simp add: tryAcquireLease_def stepDown_def Let_def count_list_Api)

theorem tryAcquireLease_error_steps_down_witness:
  "isLeader leaderA
   \<and> tryAcquireLease (managerA api_down) CallerCtx attempt_down leaderA =
       (leaderA\<lparr>acquisitionErrors := 1, isLeader := False\<rparr>,
        [Api (ApiGet CallerCtx ''default'' ''talos-kms-leader''),
         Api (ApiCreate CallerCtx ''default''
           \<lparr>meta_Name = ''talos-kms-leader'', meta_Namespace = ''default'',
            Spec = \<lparr>HolderIdentity = Some ''A'', LeaseDurationSeconds = Some 15,
                    AcquireTime = Some (30 * Second), RenewTime = Some (30 * Second),
                    LeaseTransitions = Some 0\<rparr>\<rparr>),
         Go_OnStoppedLeading],
        None)"
proof -
  have leading: "isLeader leaderA"
    by (simp add: leaderA_def NewElectionController_def)
  have failed: "AcquireLease ((managerA api_down)\<lparr>clientset := acquire_api attempt_down\<rparr>)
                  CallerCtx (acquire_now attempt_down) =
      ([ApiGet CallerCtx ''default'' ''talos-kms-leader'',
        ApiCreate CallerCtx ''default''
           \<lparr>meta_Name = ''talos-kms-leader'', meta_Namespace = ''default'',
            Spec = \<lparr>HolderIdentity = Some ''A'', LeaseDurationSeconds = Some 15,
                    AcquireTime = Some (30 * Second), RenewTime = Some (30 * Second),
                    LeaseTransitions = Some 0\<rparr>\<rparr>],
       Inr (False, Some (Wrap ''failed to create lease: '' (New ''connection refused''))))"
    by (simp add: AcquireLease_def createLease_def managerA_def api_down_def attempt_down_def
        cfgA_def DefaultLeaseConfig_def Second_def)
  show ?thesis
    using leading tryAcquireLease_error_steps_down [OF leading failed]
    by (simp add: leaderA_def NewElectionController_def cbs_all_def)
qed

section \<open>Leaving the election loop\<close>

lemma election_loop_exits:
  "CtxDone \<in> set ready \<or> StopCh \<in> set ready \<Longrightarrow> election_loop lm ctx ready ec \<noteq> None"
proof (induction ready arbitrary: ec)
  case Nil
  then show ?case by simp
next
  case (Cons c ready)
  show ?case
  proof (cases c)
    case (TickerC a)
    obtain ec1 evs p where t: "tryAcquireLease lm ctx a ec = (ec1, evs, p)"
      by (cases "tryAcquireLease lm ctx a ec") auto
    show ?thesis
    proof (cases p)
      case None
      from Cons.prems TickerC have "CtxDone \<in> set ready \<or> StopCh \<in> set ready" by simp
      then have "election_loop lm ctx ready ec1 \<noteq> None" by (rule Cons.IH)
      with t None TickerC show ?thesis by (auto split: option.splits)
    next
      case (Some q)
      with t TickerC show ?thesis by simp
    qed
  qed simp_all
qed

text \<open>Once the stop channel or the cancellation is selected, \<^verbatim>\<open>run\<close> returns.\<close>

lemma run_returns:
  assumes "CtxDone \<in> set ready \<or> StopCh \<in> set ready"
  shows "run lm ctx first ready exit_api ec \<noteq> None"
proof -
  obtain ec1 evs p where t: "tryAcquireLease lm ctx first ec = (ec1, evs, p)"
    by (cases "tryAcquireLease lm ctx first ec") auto
  have "election_loop lm ctx ready ec1 \<noteq> None"
    using assms by (rule election_loop_exits)
  with t show ?thesis
    by (cases p) (auto simp: run_def run_body_def split: prod.splits if_splits)
qed

lemma election_loop_return_cause:
  "election_loop lm ctx ready ec = Some (ec', evs, None)
     \<Longrightarrow> CtxDone \<in> set ready \<or> StopCh \<in> set ready"
proof (induction ready arbitrary: ec evs)
  case Nil
  then show ?case by simp
next
  case (Cons c ready)
  show ?case
  proof (cases c)
    case (TickerC a)
    with Cons.prems obtain ec1 evs2 where
      "election_loop lm ctx ready ec1 = Some (ec', evs2, None)"
      by (auto split: prod.splits option.splits)
    then have "CtxDone \<in> set ready \<or> StopCh \<in> set ready" by (rule Cons.IH)
    then show ?thesis by auto
  qed simp_all
qed

text \<open>
  Claim C8. Suppose \<^verbatim>\<open>run\<close> leaves its loop by a \<^verbatim>\<open>return\<close> (so the stop channel or
  the context's cancellation was selected), in state \<open>ec1\<close>. Then \<^verbatim>\<open>run\<close> returns,
  not leading. If \<open>ec1\<close> was leading, the shutdown attempts the release under a context
  with a 5 second timeout: it reads the lease and, when this instance holds it, sends the
  update that clears holder, renew time and acquire time. Whatever the read and the update
  return, it then calls \<^verbatim>\<open>OnStoppedLeading\<close> exactly once (the hook being optional).
  If \<open>ec1\<close> was not leading, neither happens.
\<close>

theorem run_exit_releases:
  fixes lm :: LeaseManager and exit_api :: Clientset and ec1 :: ElectionController
  defines "releaseCtx \<equiv> WithTimeout Background (5 * Second)"
  defines "release \<equiv>
     (case Leases_Get exit_api of
        Inl err \<Rightarrow> [Api (ApiGet releaseCtx (Namespace (config lm)) (Name (config lm)))]
      | Inr lease \<Rightarrow>
          if HolderIdentity (Spec lease) = Some (Identity (config lm))
          then [Api (ApiGet releaseCtx (Namespace (config lm)) (Name (config lm))),
                Api (ApiUpdate releaseCtx (Namespace (config lm))
                       (lease\<lparr>Spec := (Spec lease)\<lparr>HolderIdentity := None,
                                                    RenewTime := None,
                                                    AcquireTime := None\<rparr>\<rparr>))]
          else [Api (ApiGet releaseCtx (Namespace (config lm)) (Name (config lm)))])"
  defines "shutdown \<equiv>
     (if isLeader ec1
      then [Ticker_Stop] @ release
           @ (if OnStoppedLeading (callbacks ec1) then [Call_OnStoppedLeading] else [])
           @ [Close_stoppedCh]
      else [Ticker_Stop, Close_stoppedCh])"
  assumes "run_body lm ctx first ready ec = Some (ec1, evs, None)"
  shows "run lm ctx first ready exit_api ec = Some (ec1\<lparr>isLeader := False\<rparr>, evs @ shutdown, None)
       \<and> (CtxDone \<in> set ready \<or> StopCh \<in> set ready)
       \<and> count_list shutdown Call_OnStoppedLeading + count_list shutdown Go_OnStoppedLeading
           = (if isLeader ec1 \<and> OnStoppedLeading (callbacks ec1) then 1 else 0)"
proof -
  from assms(4) have period: "\<not> RetryPeriod (config lm) \<le> 0"
    by (auto simp: run_body_def split: if_splits)
  from assms(4) have cause: "CtxDone \<in> set ready \<or> StopCh \<in> set ready"
    by (auto simp: run_body_def split: if_splits prod.splits option.splits
        dest: election_loop_return_cause)
  have calls: "map Api (fst (ReleaseLease (lm\<lparr>clientset := exit_api\<rparr>) releaseCtx)) = release"
    by (auto simp: ReleaseLease_def release_def Let_def split: sum.splits)
  have "run lm ctx first ready exit_api ec = Some (ec1\<lparr>isLeader := False\<rparr>, evs @ shutdown, None)"
    using assms(4) period calls
    by (auto simp: shutdown_def releaseCtx_def run_def run_deferred_def
        releaseLeadershipOnExit_def Let_def split: prod.splits)
  moreover have "count_list release Call_OnStoppedLeading = 0"
    "count_list release Go_OnStoppedLeading = 0"
    by (simp_all add: release_def split: sum.splits)
  then have "count_list shutdown Call_OnStoppedLeading + count_list shutdown Go_OnStoppedLeading
           = (if isLeader ec1 \<and> OnStoppedLeading (callbacks ec1) then 1 else 0)"
    by (simp add: shutdown_def)
  ultimately show ?thesis using cause by blast
qed

theorem run_exit_releases_witness:
  "run (managerA api_down) CallerCtx attempt_renew [StopCh] api_read_only
       (NewElectionController cbs_all)
     = Some
        ((NewElectionController cbs_all)
           \<lparr>isLeader := False, currentLeader := ''A'', lastLeaderChange := Some (5 * Second),
            leadershipChanges := 1\<rparr>,
         [Api (ApiGet CallerCtx ''default'' ''talos-kms-leader''),
          Api (ApiUpdate CallerCtx ''default''
            \<lparr>meta_Name = ''talos-kms-leader'', meta_Namespace = ''default'',
             Spec = \<lparr>HolderIdentity = Some ''A'', LeaseDurationSeconds = Some 15,
                     AcquireTime = Some 0, RenewTime = Some (5 * Second),
                     LeaseTransitions = Some 3\<rparr>\<rparr>),
          Api (ApiGet CallerCtx ''default'' ''talos-kms-leader''),
          Go_OnStartedLeading, Go_OnNewLeader,
          Ticker_Stop,
          Api (ApiGet (WithTimeout Background (5 * Second)) ''default'' ''talos-kms-leader''),
          Api (ApiUpdate (WithTimeout Background (5 * Second)) ''default''
            \<lparr>meta_Name = ''talos-kms-leader'', meta_Namespace = ''default'',
             Spec = \<lparr>HolderIdentity = None, LeaseDurationSeconds = Some 15,
                     AcquireTime = None, RenewTime = None,
                     LeaseTransitions = Some 3\<rparr>\<rparr>),
          Call_OnStoppedLeading,
          Close_stoppedCh],
         None)
   \<and> snd (ReleaseLease ((managerA api_down)\<lparr>clientset := api_read_only\<rparr>)
             (WithTimeout Background (5 * Second)))
       = Some (Wrap ''failed to release lease: '' (New ''connection refused''))"
proof -
  have body: "run_body (managerA api_down) CallerCtx attempt_renew [StopCh]
                (NewElectionController cbs_all)
     = Some
        ((NewElectionController cbs_all)
           \<lparr>isLeader := True, currentLeader := ''A'', lastLeaderChange := Some (5 * Second),
            leadershipChanges := 1\<rparr>,
         [Api (ApiGet CallerCtx ''default'' ''talos-kms-leader''),
          Api (ApiUpdate CallerCtx ''default''
            \<lparr>meta_Name = ''talos-kms-leader'', meta_Namespace = ''default'',
             Spec = \<lparr>HolderIdentity = Some ''A'', LeaseDurationSeconds = Some 15,
                     AcquireTime = Some 0, RenewTime = Some (5 * Second),
                     LeaseTransitions = Some 3\<rparr>\<rparr>),
          Api (ApiGet CallerCtx ''default'' ''talos-kms-leader''),
          Go_OnStartedLeading, Go_OnNewLeader],
         None)"
    by (simp add: run_body_def tryAcquireLease_def AcquireLease_def canAcquireLease_def
        updateLease_def GetLeaseInfo_def updateLeadershipState_def managerA_def api_def
        attempt_renew_def leaseA_def cfgA_def DefaultLeaseConfig_def Second_def
        NewElectionController_def cbs_all_def Let_def)
  have failed: "snd (ReleaseLease ((managerA api_down)\<lparr>clientset := api_read_only\<rparr>)
             (WithTimeout Background (5 * Second)))
       = Some (Wrap ''failed to release lease: '' (New ''connection refused''))"
    by (simp add: ReleaseLease_def managerA_def api_read_only_def leaseA_def cfgA_def
        DefaultLeaseConfig_def Let_def)
  show ?thesis
    using failed run_exit_releases [OF body, of api_read_only]
    by (simp add: managerA_def api_read_only_def leaseA_def cfgA_def DefaultLeaseConfig_def
        NewElectionController_def cbs_all_def Let_def)
qed

section \<open>The leadership gate\<close>

lemma fold_deliver_Api:
  "fold deliver (map Api calls) las = las"
  by (induction calls) simp_all

lemma deliver_updateLeadershipState:
  assumes "OnStartedLeading (callbacks ec)" and "OnStoppedLeading (callbacks ec)"
    and "las_isLeader las = isLeader ec" and "las_isActive las = isLeader ec"
    and "updateLeadershipState ec acquired leaseInfo now = (ec', evs)"
  shows "las_isLeader (fold deliver evs las) = isLeader ec'
       \<and> las_isActive (fold deliver evs las) = isLeader ec'"
  using assms
  by (auto simp: updateLeadershipState_def Let_def OnBecomeLeader_def OnLoseLeadership_def
      OnLeaderChange_def split: if_splits)

lemma deliver_stepDown:
  assumes "OnStoppedLeading (callbacks ec)"
    and "las_isLeader las = isLeader ec" and "las_isActive las = isLeader ec"
    and "stepDown ec = (ec', evs)"
  shows "las_isLeader (fold deliver evs las) = isLeader ec'
       \<and> las_isActive (fold deliver evs las) = isLeader ec'"
  using assms
  by (auto simp: stepDown_def Let_def OnLoseLeadership_def split: if_splits)

lemma deliver_tryAcquireLease:
  assumes hooks: "OnStartedLeading (callbacks ec)" "OnStoppedLeading (callbacks ec)"
    and sync: "las_isLeader las = isLeader ec" "las_isActive las = isLeader ec"
    and step: "tryAcquireLease lm ctx a ec = (ec', evs, p)"
  shows "las_isLeader (fold deliver evs las) = isLeader ec'
       \<and> las_isActive (fold deliver evs las) = isLeader ec'"
proof -
  obtain calls r where acq:
    "AcquireLease (lm\<lparr>clientset := acquire_api a\<rparr>) ctx (acquire_now a) = (calls, r)"
    by (cases "AcquireLease (lm\<lparr>clientset := acquire_api a\<rparr>) ctx (acquire_now a)") auto
  show ?thesis
  proof (cases r)
    case (Inl q)
    with acq step sync show ?thesis
      by (auto simp: tryAcquireLease_def fold_deliver_Api)
  next
    case (Inr res)
    obtain acquired err where res: "res = (acquired, err)" by (cases res) auto
    show ?thesis
    proof (cases err)
      case (Some e)
      show ?thesis
      proof (cases "isLeader ec")
        case True
        obtain ec2 evs2 where sd:
          "stepDown (ec\<lparr>acquisitionErrors := acquisitionErrors ec + 1\<rparr>) = (ec2, evs2)"
          by (cases "stepDown (ec\<lparr>acquisitionErrors := acquisitionErrors ec + 1\<rparr>)") auto
        from acq Inr res Some True sd step have "ec' = ec2" "evs = map Api calls @ evs2"
          by (auto simp: tryAcquireLease_def)
        moreover have "las_isLeader (fold deliver evs2 las) = isLeader ec2
                     \<and> las_isActive (fold deliver evs2 las) = isLeader ec2"
          using hooks(2) sync sd
          by (intro deliver_stepDown [where ec = "ec\<lparr>acquisitionErrors := acquisitionErrors ec + 1\<rparr>"])
             simp_all
        ultimately show ?thesis by (simp add: fold_deliver_Api)
      next
        case False
        with acq Inr res Some step sync show ?thesis
          by (auto simp: tryAcquireLease_def fold_deliver_Api)
      qed
    next
      case None
      obtain calls2 ri where gi:
        "GetLeaseInfo (lm\<lparr>clientset := info_api a\<rparr>) ctx = (calls2, ri)"
        by (cases "GetLeaseInfo (lm\<lparr>clientset := info_api a\<rparr>) ctx") auto
      show ?thesis
      proof (cases ri)
        case (Inl e)
        with acq Inr res None gi step sync show ?thesis
          by (auto simp: tryAcquireLease_def fold_deliver_Api simp flip: map_append)
      next
        case (Inr leaseInfo)
        obtain ec2 evs2 where up:
          "updateLeadershipState ec acquired leaseInfo (update_now a) = (ec2, evs2)"
          by (cases "updateLeadershipState ec acquired leaseInfo (update_now a)") auto
        from acq \<open>r = Inr res\<close> res None gi Inr up step
        have "ec' = ec2" "evs = map Api (calls @ calls2) @ evs2"
          by (auto simp: tryAcquireLease_def)
        moreover have "las_isLeader (fold deliver evs2 las) = isLeader ec2
                     \<and> las_isActive (fold deliver evs2 las) = isLeader ec2"
          using hooks sync up by (rule deliver_updateLeadershipState)
        ultimately show ?thesis by (simp add: fold_deliver_Api del: map_append)
      qed
    qed
  qed
qed

text \<open>
  Claim C3, as the code has it. \<^verbatim>\<open>checkLeadership\<close> reads the server's own two flags
  and nothing of the election controller: it is false whenever the server's
  \<^verbatim>\<open>isLeader\<close> flag is false, whatever the controller's state (its leader identity and
  its own \<^verbatim>\<open>isLeader\<close>), and true exactly when the server's \<^verbatim>\<open>isLeader\<close> and
  \<^verbatim>\<open>isActive\<close> are both set. \<^verbatim>\<open>OnBecomeLeader\<close> sets both flags,
  \<^verbatim>\<open>OnLoseLeadership\<close> clears both. The server's flags follow the controller's
  \<^verbatim>\<open>isLeader\<close> through the hooks: when both hooks are wired and the flags agree with
  the controller before an attempt, they agree with it again once the hooks that attempt
  dispatched have run, in order.
\<close>

theorem checkLeadership_own_flags:
  "(\<not> las_isLeader las \<longrightarrow> \<not> checkLeadership las)
   \<and> (checkLeadership las \<longrightarrow> las_isLeader las \<and> las_isActive las)
   \<and> (las_isLeader las \<and> las_isActive las \<longrightarrow> checkLeadership las)
   \<and> checkLeadership (las\<lparr>electionController := ec0\<rparr>) = checkLeadership las
   \<and> las_isLeader (OnBecomeLeader las) \<and> las_isActive (OnBecomeLeader las)
   \<and> checkLeadership (OnBecomeLeader las)
   \<and> \<not> las_isLeader (OnLoseLeadership las) \<and> \<not> las_isActive (OnLoseLeadership las)
   \<and> \<not> checkLeadership (OnLoseLeadership las)
   \<and> (OnStartedLeading (callbacks ec) \<and> OnStoppedLeading (callbacks ec)
        \<and> las_isLeader las = isLeader ec \<and> las_isActive las = isLeader ec \<longrightarrow>
        checkLeadership (fold deliver (fst (snd (tryAcquireLease lm ctx a ec))) las)
          = isLeader (fst (tryAcquireLease lm ctx a ec)))"
proof -
  have "checkLeadership (fold deliver (fst (snd (tryAcquireLease lm ctx a ec))) las)
          = isLeader (fst (tryAcquireLease lm ctx a ec))"
    if "OnStartedLeading (callbacks ec)" "OnStoppedLeading (callbacks ec)"
      "las_isLeader las = isLeader ec" "las_isActive las = isLeader ec"
    using deliver_tryAcquireLease [OF that, of lm ctx a
        "fst (tryAcquireLease lm ctx a ec)" "fst (snd (tryAcquireLease lm ctx a ec))"
        "snd (snd (tryAcquireLease lm ctx a ec))"]
    by (auto simp: checkLeadership_def)
  then show ?thesis
    by (simp add: checkLeadership_def OnBecomeLeader_def OnLoseLeadership_def)
qed

theorem checkLeadership_own_flags_witness:
  "\<not> las_isLeader passive_gate
   \<and> \<not> checkLeadership passive_gate
   \<and> checkLeadership (OnBecomeLeader passive_gate)
   \<and> \<not> checkLeadership (OnLoseLeadership (OnBecomeLeader passive_gate))
   \<and> \<not> isLeader (fst (tryAcquireLease (managerA api_down) CallerCtx attempt_down leaderA))
   \<and> \<not> checkLeadership
         (fold deliver (fst (snd (tryAcquireLease (managerA api_down) CallerCtx attempt_down leaderA)))
            (OnBecomeLeader passive_gate))"
proof -
  have not_leading: "\<not> las_isLeader passive_gate"
    by (simp add: passive_gate_def NewLeaderAwareServer_def)
  have hooks: "OnStartedLeading (callbacks leaderA) \<and> OnStoppedLeading (callbacks leaderA)"
    by (simp add: leaderA_def NewElectionController_def cbs_all_def)
  have sync: "las_isLeader (OnBecomeLeader passive_gate) = isLeader leaderA
              \<and> las_isActive (OnBecomeLeader passive_gate) = isLeader leaderA"
    by (simp add: OnBecomeLeader_def leaderA_def NewElectionController_def)
  have down: "\<not> isLeader (fst (tryAcquireLease (managerA api_down) CallerCtx attempt_down leaderA))"
    by (simp add: tryAcquireLease_def AcquireLease_def createLease_def stepDown_def
        managerA_def api_down_def attempt_down_def leaderA_def NewElectionController_def
        cbs_all_def Let_def)
  have "\<not> checkLeadership passive_gate"
    using checkLeadership_own_flags [of passive_gate leaderA leaderA] not_leading by blast
  moreover have "checkLeadership (OnBecomeLeader passive_gate)"
    using checkLeadership_own_flags [of passive_gate leaderA leaderA] by blast
  moreover have "\<not> checkLeadership (OnLoseLeadership (OnBecomeLeader passive_gate))"
    using checkLeadership_own_flags [of "OnBecomeLeader passive_gate" leaderA leaderA] by blast
  moreover have "\<not> checkLeadership
         (fold deliver (fst (snd (tryAcquireLease (managerA api_down) CallerCtx attempt_down leaderA)))
            (OnBecomeLeader passive_gate))"
    using checkLeadership_own_flags
      [of "OnBecomeLeader passive_gate" leaderA leaderA "managerA api_down" CallerCtx attempt_down]
      hooks sync down by blast
  ultimately show ?thesis using not_leading down by blast
qed

text \<open>
  The claim read with the controller's \<^verbatim>\<open>isLeader\<close> fails. A leading controller whose
  renewal fails steps down at once; until the \<^verbatim>\<open>OnStoppedLeading\<close> goroutine it
  started has run, the server's flags are still set and the gate admits.
\<close>

theorem gate_admits_after_step_down:
  "\<not> isLeader (fst (tryAcquireLease (managerA api_down) CallerCtx attempt_down leaderA))
   \<and> checkLeadership
       ((OnBecomeLeader passive_gate)
          \<lparr>electionController :=
             fst (tryAcquireLease (managerA api_down) CallerCtx attempt_down leaderA)\<rparr>)"
  by (simp add: tryAcquireLease_def AcquireLease_def createLease_def stepDown_def
      managerA_def api_down_def attempt_down_def leaderA_def NewElectionController_def
      cbs_all_def Let_def checkLeadership_def OnBecomeLeader_def passive_gate_def
      NewLeaderAwareServer_def)

text \<open>
  Claim C7. While \<^verbatim>\<open>checkLeadership\<close> is false, \<^verbatim>\<open>Seal\<close> and \<^verbatim>\<open>Unseal\<close> do not
  call the wrapped server and return no response and the error of
  \<^verbatim>\<open>createNotLeaderError\<close>: an \<^verbatim>\<open>Unavailable\<close> status whose message ends with the
  leader's identity when the election controller knows a non-empty leader, and the
  \<^verbatim>\<open>Unavailable\<close> status ``No leader elected - service unavailable'' when it knows
  none.
\<close>

theorem gated_call_rejected:
  assumes "\<not> checkLeadership las"
  shows "Seal las request = ([], (None, Some (createNotLeaderError las)))
     \<and> Unseal las request = ([], (None, Some (createNotLeaderError las)))
     \<and> createNotLeaderError las =
         (if currentLeader (electionController las) = []
          then Status Unavailable ''No leader elected - service unavailable''
          else Status Unavailable
                 (''Not the leader - current leader is '' @ currentLeader (electionController las)))"
  using assms
  by (simp add: Seal_def Unseal_def createNotLeaderError_def GetCurrentLeader_def Let_def)

theorem gated_call_rejected_witness:
  "\<not> checkLeadership passive_gate
   \<and> Seal passive_gate ''request'' =
       ([], (None, Some (Status Unavailable ''Not the leader - current leader is B'')))
   \<and> Unseal passive_gate ''request'' =
       ([], (None, Some (Status Unavailable ''Not the leader - current leader is B'')))
   \<and> Seal (passive_gate\<lparr>electionController := NewElectionController cbs_all\<rparr>) ''request'' =
       ([], (None, Some (Status Unavailable ''No leader elected - service unavailable'')))"
proof -
  have closed: "\<not> checkLeadership passive_gate"
    by (simp add: checkLeadership_def passive_gate_def NewLeaderAwareServer_def)
  have closed': "\<not> checkLeadership (passive_gate\<lparr>electionController := NewElectionController cbs_all\<rparr>)"
    by (simp add: checkLeadership_def passive_gate_def NewLeaderAwareServer_def)
  show ?thesis
    using closed gated_call_rejected [OF closed, of "''request''"]
      gated_call_rejected [OF closed', of "''request''"]
    by (simp add: passive_gate_def NewLeaderAwareServer_def NewElectionController_def)
qed

end
